theory Spec2Isabelle
  imports Complex_Main
begin

section \<open>Numbers of the source language\<close>

text \<open>
  The simulations are TypeScript and compute on IEEE-754 doubles. Finite values are
  reals; the three special values are kept, because the source produces and tests them
  (\<^verbatim>\<open>Infinity\<close> is returned by the payoff loop, and an unguarded division or
  logarithm yields \<^verbatim>\<open>NaN\<close>). Zero is the positive zero. The operations below are
  exact; the rounding of a result to double precision is a function of its own, applied
  where a result depends on it.
\<close>

datatype jsnum = Num real | PosInf | NegInf | NaN

fun js_neg :: "jsnum \<Rightarrow> jsnum" where
  "js_neg (Num a) = Num (- a)"
| "js_neg PosInf = NegInf"
| "js_neg NegInf = PosInf"
| "js_neg NaN = NaN"

fun js_add :: "jsnum \<Rightarrow> jsnum \<Rightarrow> jsnum" where
  "js_add NaN _ = NaN"
| "js_add _ NaN = NaN"
| "js_add (Num a) (Num b) = Num (a + b)"
| "js_add PosInf NegInf = NaN"
| "js_add NegInf PosInf = NaN"
| "js_add PosInf _ = PosInf"
| "js_add _ PosInf = PosInf"
| "js_add NegInf _ = NegInf"
| "js_add _ NegInf = NegInf"

definition js_sub :: "jsnum \<Rightarrow> jsnum \<Rightarrow> jsnum" where
  "js_sub a b = js_add a (js_neg b)"

text \<open>The sign of a product or quotient with an infinite operand.\<close>

definition js_signed_inf :: "bool \<Rightarrow> jsnum" where
  "js_signed_inf positive = (if positive then PosInf else NegInf)"

fun js_mul :: "jsnum \<Rightarrow> jsnum \<Rightarrow> jsnum" where
  "js_mul NaN _ = NaN"
| "js_mul _ NaN = NaN"
| "js_mul (Num a) (Num b) = Num (a * b)"
| "js_mul (Num a) PosInf = (if a = 0 then NaN else js_signed_inf (0 < a))"
| "js_mul (Num a) NegInf = (if a = 0 then NaN else js_signed_inf (a < 0))"
| "js_mul PosInf (Num b) = (if b = 0 then NaN else js_signed_inf (0 < b))"
| "js_mul NegInf (Num b) = (if b = 0 then NaN else js_signed_inf (b < 0))"
| "js_mul PosInf PosInf = PosInf"
| "js_mul NegInf NegInf = PosInf"
| "js_mul PosInf NegInf = NegInf"
| "js_mul NegInf PosInf = NegInf"

fun js_div :: "jsnum \<Rightarrow> jsnum \<Rightarrow> jsnum" where
  "js_div NaN _ = NaN"
| "js_div _ NaN = NaN"
| "js_div (Num a) (Num b) =
     (if b \<noteq> 0 then Num (a / b) else if a = 0 then NaN else js_signed_inf (0 < a))"
| "js_div (Num a) PosInf = Num 0"
| "js_div (Num a) NegInf = Num 0"
| "js_div PosInf (Num b) = js_signed_inf (0 \<le> b)"
| "js_div NegInf (Num b) = js_signed_inf (b < 0)"
| "js_div _ _ = NaN"

fun js_abs :: "jsnum \<Rightarrow> jsnum" where
  "js_abs (Num a) = Num \<bar>a\<bar>"
| "js_abs PosInf = PosInf"
| "js_abs NegInf = PosInf"
| "js_abs NaN = NaN"

text \<open>\<^verbatim>\<open>Math.max\<close> of two arguments: \<^verbatim>\<open>NaN\<close> if either is.\<close>

fun js_max :: "jsnum \<Rightarrow> jsnum \<Rightarrow> jsnum" where
  "js_max NaN _ = NaN"
| "js_max _ NaN = NaN"
| "js_max (Num a) (Num b) = Num (max a b)"
| "js_max PosInf _ = PosInf"
| "js_max _ PosInf = PosInf"
| "js_max NegInf b = b"
| "js_max a NegInf = a"

text \<open>\<^verbatim>\<open>Math.round\<close>: the nearest integer, a tie going up.\<close>

definition round_half_up :: "real \<Rightarrow> int" where
  "round_half_up x = \<lfloor>x + 1 / 2\<rfloor>"

fun js_round :: "jsnum \<Rightarrow> jsnum" where
  "js_round (Num a) = Num (of_int (round_half_up a))"
| "js_round x = x"

text \<open>\<^verbatim>\<open>Math.log\<close>, the natural logarithm.\<close>

fun js_log :: "jsnum \<Rightarrow> jsnum" where
  "js_log (Num a) = (if a < 0 then NaN else if a = 0 then NegInf else Num (ln a))"
| "js_log PosInf = PosInf"
| "js_log NegInf = NaN"
| "js_log NaN = NaN"

section \<open>Rounding to double precision\<close>

text \<open>
  Where a result depends on the last bits of a computation (a comparison with 0 inside a
  loop, a mean close to a rounding tie), each arithmetic operation is followed by the
  rounding of IEEE-754 binary64: to the nearest number with a 53-bit significand, a tie
  going to the even significand. Exponents below the normal range share the spacing of
  the smallest normal binade. Overflow is not modelled: the amounts of the pages are far
  below \<open>2^1024\<close>.
\<close>

definition round_even :: "real \<Rightarrow> int" where
  "round_even q =
     (let f = \<lfloor>q\<rfloor>; d = q - of_int f
      in if d < 1 / 2 then f
         else if 1 / 2 < d then f + 1
         else if even f then f else f + 1)"

definition r64 :: "real \<Rightarrow> real" where
  "r64 x =
     (if x = 0 then 0
      else
        (let e = max \<lfloor>log 2 \<bar>x\<bar>\<rfloor> (- 1022);
             ulp = 2 powi (e - 52)
         in of_int (round_even (x / ulp)) * ulp))"

fun js_rnd :: "jsnum \<Rightarrow> jsnum" where
  "js_rnd (Num a) = Num (r64 a)"
| "js_rnd x = x"

section \<open>Coffee-shop effect: the guess score\<close>

text \<open>
  \<^verbatim>\<open>handleComplete\<close> of the coffee-shop page. The divisor \<^verbatim>\<open>actualCost\<close> is a non-zero
  constant, so the computation stays finite for every finite guess.
\<close>

definition actualCost :: real where
  "actualCost = 5.50 * 5 * 52"

definition difference :: "real \<Rightarrow> real" where
  "difference userGuess = \<bar>actualCost - userGuess\<bar>"

definition accuracyPercent :: "real \<Rightarrow> real" where
  "accuracyPercent userGuess = max 0 (100 - (difference userGuess / actualCost * 100))"

definition score :: "real \<Rightarrow> int" where
  "score userGuess = round_half_up (accuracyPercent userGuess)"

definition isPerfect :: "real \<Rightarrow> bool" where
  "isPerfect userGuess = (score userGuess \<ge> 95)"

text \<open>\<^verbatim>\<open>StepCompound\<close> of the same page annualises the habit from its three factors.\<close>

definition annualCost :: "real \<Rightarrow> real \<Rightarrow> real \<Rightarrow> real" where
  "annualCost dailyCost workdaysPerWeek weeksPerYear = dailyCost * workdaysPerWeek * weeksPerYear"

section \<open>Paycheck game: the strategy allocator\<close>

datatype Strategy = spend_first | bills_first | save_first

datatype StressLevel = low | medium | high

record StrategyResult =
  strategy :: Strategy
  amount_saved :: real
  bills_paid_on_time :: bool
  discretionary_spent :: real
  late_fees :: real
  stress_level :: StressLevel
  final_balance :: real

text \<open>
  \<^verbatim>\<open>simulateStrategy\<close> closes over \<^verbatim>\<open>income\<close> and \<^verbatim>\<open>expenses\<close>; they are parameters
  here. The \<^verbatim>\<open>description\<close> text of the result is display only and left out.
\<close>

definition simulateStrategy :: "real \<Rightarrow> real \<Rightarrow> Strategy \<Rightarrow> StrategyResult" where
  "simulateStrategy income expenses strat =
    (let remaining = income - expenses;
         savingsTarget = income * 0.10
     in if strat = spend_first then
          (let discretionary = remaining * 1.3;
               saved = 0;
               lateFees = 70
           in \<lparr>strategy = strat, amount_saved = saved, bills_paid_on_time = False,
               discretionary_spent = discretionary, late_fees = lateFees,
               stress_level = high,
               final_balance = income - expenses - discretionary - lateFees\<rparr>)
        else if strat = bills_first then
          (let discretionary = remaining * 0.95;
               saved = remaining * 0.05
           in \<lparr>strategy = strat, amount_saved = saved, bills_paid_on_time = True,
               discretionary_spent = discretionary, late_fees = 0,
               stress_level = medium,
               final_balance = income - expenses - discretionary\<rparr>)
        else
          (let saved = savingsTarget;
               discretionary = remaining - saved
           in \<lparr>strategy = strat, amount_saved = saved, bills_paid_on_time = True,
               discretionary_spent = discretionary, late_fees = 0,
               stress_level = low,
               final_balance = income - expenses - discretionary\<rparr>))"

section \<open>Credit-card trap: the payoff iteration and the minimum-payment preview\<close>

text \<open>The monthly rate of \<^verbatim>\<open>StepDebtSetup\<close>, from the APR in percent.\<close>

definition monthlyRate :: "real \<Rightarrow> real" where
  "monthlyRate apr = apr / 100 / 12"

text \<open>
  The object returned by \<^verbatim>\<open>calculatePayoff\<close>. The totals are \<^verbatim>\<open>Infinity\<close> on one
  return path, so they are numbers of the source language.
\<close>

record payoff =
  months :: nat
  totalPaid :: jsnum
  totalInterest :: jsnum

text \<open>
  \<^verbatim>\<open>StepCompare\<close> computes its own monthly rate and then branches, month after month, on
  the sign of a difference of nearly equal numbers, so its arithmetic carries the
  rounding of every operation.
\<close>

definition monthlyRate64 :: "real \<Rightarrow> real" where
  "monthlyRate64 apr = r64 (r64 (apr / 100) / 12)"

text \<open>
  The \<^verbatim>\<open>while\<close> loop of \<^verbatim>\<open>calculatePayoff\<close>, with its three mutable variables
  (\<^verbatim>\<open>remainingBalance\<close>, \<^verbatim>\<open>totalPaid\<close>, \<^verbatim>\<open>months\<close>) as arguments; the early
  \<^verbatim>\<open>return\<close> inside the loop and the return after it are the two leaves.
\<close>

function payoff_loop :: "real \<Rightarrow> real \<Rightarrow> real \<Rightarrow> real \<Rightarrow> real \<Rightarrow> nat \<Rightarrow> payoff" where
  "payoff_loop balance rate monthlyPayment remainingBalance paid n =
     (if remainingBalance > 0 \<and> n < 600 then
        (let interestCharge = r64 (remainingBalance * rate);
             principalPayment = min (r64 (monthlyPayment - interestCharge)) remainingBalance
         in if principalPayment \<le> 0 then
              \<lparr>months = 600, totalPaid = PosInf, totalInterest = PosInf\<rparr>
            else payoff_loop balance rate monthlyPayment
                   (r64 (remainingBalance - principalPayment)) (r64 (paid + monthlyPayment))
                   (n + 1))
      else \<lparr>months = n, totalPaid = Num paid, totalInterest = Num (r64 (paid - balance))\<rparr>)"
  by pat_completeness auto
termination
  by (relation "measure (\<lambda>(balance, rate, monthlyPayment, remainingBalance, paid, n). 600 - n)")
    auto

declare payoff_loop.simps [simp del]

definition calculatePayoff :: "real \<Rightarrow> real \<Rightarrow> real \<Rightarrow> payoff" where
  "calculatePayoff balance apr monthlyPayment =
     payoff_loop balance (monthlyRate64 apr) monthlyPayment balance 0 0"

text \<open>
  The preview of \<^verbatim>\<open>StepDebtSetup\<close>: a closed form evaluated on every render, with an
  unguarded quotient under the logarithm.
\<close>

definition minimumPayment :: "real \<Rightarrow> real" where
  "minimumPayment balance = max 25 (balance * 0.02)"

definition monthsToPayoff :: "real \<Rightarrow> real \<Rightarrow> jsnum" where
  "monthsToPayoff balance apr =
     js_div
       (js_log (js_div (Num (minimumPayment balance))
                       (Num (minimumPayment balance - balance * monthlyRate apr))))
       (js_log (Num (1 + monthlyRate apr)))"

definition previewTotalPaid :: "real \<Rightarrow> real \<Rightarrow> jsnum" where
  "previewTotalPaid balance apr = js_mul (Num (minimumPayment balance)) (monthsToPayoff balance apr)"

definition previewTotalInterest :: "real \<Rightarrow> real \<Rightarrow> jsnum" where
  "previewTotalInterest balance apr = js_sub (previewTotalPaid balance apr) (Num balance)"

section \<open>Annuity future value\<close>

text \<open>
  \<^verbatim>\<open>calculateFutureValue\<close> of the coffee-shop page. The year count is an array index.
  The only guard is on \<^verbatim>\<open>years\<close>; the quotient by \<^verbatim>\<open>rate\<close> is taken as it is.
\<close>

definition calculateFutureValue :: "real \<Rightarrow> real \<Rightarrow> nat \<Rightarrow> jsnum" where
  "calculateFutureValue pmt rate years =
     (if years = 0 then Num 0
      else js_mul (Num pmt) (js_div (Num ((1 + rate) ^ years - 1)) (Num rate)))"

text \<open>The chart row of year \<open>i\<close> in \<^verbatim>\<open>StepCompound\<close>: the call site fixes the rate.\<close>

definition invested_at :: "real \<Rightarrow> nat \<Rightarrow> jsnum" where
  "invested_at cost i = calculateFutureValue cost 0.08 i"

definition returnRate :: real where
  "returnRate = 0.08"

text \<open>
  \<^verbatim>\<open>finalValue\<close> of \<^verbatim>\<open>StepCalculator\<close> (compound-interest page). There is no rate
  parameter: the divisor is the constant \<^verbatim>\<open>returnRate / 12\<close>.
\<close>

definition finalValue :: "nat \<Rightarrow> real \<Rightarrow> nat \<Rightarrow> real" where
  "finalValue age monthlyAmount yearsInvesting =
     (let retirementAge = 65;
          endInvestingAge = age + yearsInvesting;
          monthlyRate = returnRate / 12;
          months = yearsInvesting * 12;
          annuity = monthlyAmount * (((1 + monthlyRate) ^ months - 1) / monthlyRate);
          additionalYears = int retirementAge - int endInvestingAge
      in if additionalYears > 0 then annuity * (1 + returnRate) ^ nat additionalYears
         else annuity)"

section \<open>Compound-interest race\<close>

record valuation =
  balance :: real
  invested :: real

text \<open>
  \<^verbatim>\<open>calculateValue\<close> of \<^verbatim>\<open>StepRace\<close>. Ages are whole years (the slider steps by 1).
  Every exponent is non-negative where it is used (\<^verbatim>\<open>yearsInvesting\<close> is clamped at 0,
  \<^verbatim>\<open>additionalYears\<close> is tested, and the last branch has \<^verbatim>\<open>currentAge >= startAge\<close>).
\<close>

definition calculateValue :: "int \<Rightarrow> int \<Rightarrow> real \<Rightarrow> int \<Rightarrow> valuation" where
  "calculateValue startAge endAge monthlyAmount currentAge =
     (if currentAge < startAge \<or> currentAge > endAge then
        (let yearsInvesting = max 0 (min endAge currentAge - startAge);
             yearsGrowing = max 0 (currentAge - startAge)
         in if yearsInvesting = 0 then \<lparr>balance = 0, invested = 0\<rparr>
            else
              (let monthlyRate = returnRate / 12;
                   months = yearsInvesting * 12;
                   annuity = monthlyAmount * (((1 + monthlyRate) ^ nat months - 1) / monthlyRate);
                   additionalYears = currentAge - endAge;
                   grown = (if additionalYears > 0
                            then annuity * (1 + returnRate) ^ nat additionalYears
                            else annuity)
               in \<lparr>balance = grown, invested = monthlyAmount * of_int months\<rparr>))
      else
        (let months = (currentAge - startAge) * 12;
             monthlyRate = returnRate / 12;
             annuity = monthlyAmount * (((1 + monthlyRate) ^ nat months - 1) / monthlyRate)
         in \<lparr>balance = annuity, invested = monthlyAmount * of_int months\<rparr>))"

definition emma :: "int \<Rightarrow> valuation" where
  "emma currentAge = calculateValue 25 35 300 currentAge"

definition steven :: "int \<Rightarrow> valuation" where
  "steven currentAge = calculateValue 35 65 300 currentAge"

definition larry :: "int \<Rightarrow> valuation" where
  "larry currentAge = calculateValue 45 65 500 currentAge"

section \<open>Emergency-fund race\<close>

text \<open>
  The two characters and the emergencies of \<^verbatim>\<open>StepRace\<close>. Display-only fields (names,
  avatars, descriptions) are left out; \<^verbatim>\<open>type\<close> of an emergency is the field \<open>kind\<close>.
\<close>

record Character =
  hasEmergencyFund :: bool
  emergencyFund :: real
  debt :: real
  stress :: real

record Emergency =
  month :: nat
  kind :: string
  cost :: real

definition emergencyEvents :: "Emergency list" where
  "emergencyEvents =
     [\<lparr>month = 2, kind = ''car'', cost = 800\<rparr>,
      \<lparr>month = 5, kind = ''medical'', cost = 1200\<rparr>,
      \<lparr>month = 8, kind = ''home'', cost = 600\<rparr>,
      \<lparr>month = 11, kind = ''appliance'', cost = 900\<rparr>]"

text \<open>The React state of the step: one record, updated once per simulated month.\<close>

record race =
  currentMonth :: nat
  sarah :: Character
  mike :: Character
  emergencies :: "Emergency list"

definition initial_race :: race where
  "initial_race =
     \<lparr>currentMonth = 0,
      sarah = \<lparr>hasEmergencyFund = True, emergencyFund = 5000, debt = 0, stress = 2\<rparr>,
      mike = \<lparr>hasEmergencyFund = False, emergencyFund = 0, debt = 0, stress = 5\<rparr>,
      emergencies = []\<rparr>"

text \<open>The four state updaters of the effect, as functions of the previous character.\<close>

definition sarah_emergency :: "Emergency \<Rightarrow> Character \<Rightarrow> Character" where
  "sarah_emergency emergency prev =
     (let canPayFromFund = emergencyFund prev \<ge> cost emergency
      in if canPayFromFund then
           prev\<lparr>emergencyFund := emergencyFund prev - cost emergency,
                stress := min (stress prev + 1) 10\<rparr>
         else
           (let debtAdded = cost emergency - emergencyFund prev
            in prev\<lparr>emergencyFund := 0,
                    debt := debt prev + debtAdded,
                    stress := min (stress prev + 3) 10\<rparr>))"

definition mike_emergency :: "Emergency \<Rightarrow> Character \<Rightarrow> Character" where
  "mike_emergency emergency prev =
     prev\<lparr>debt := debt prev + cost emergency, stress := min (stress prev + 3) 10\<rparr>"

definition sarah_normal :: "Character \<Rightarrow> Character" where
  "sarah_normal prev =
     prev\<lparr>emergencyFund := emergencyFund prev + 400,
          debt := max 0 (debt prev - debt prev * 0.05),
          stress := max 1 (stress prev - 0.5)\<rparr>"

definition mike_normal :: "Character \<Rightarrow> Character" where
  "mike_normal prev =
     prev\<lparr>debt := debt prev + (if debt prev > 0 then debt prev * 0.018 else 0),
          stress := (if debt prev > 0 then min (stress prev + 0.5) 10 else stress prev)\<rparr>"

text \<open>
  One firing of the effect for \<^verbatim>\<open>currentMonth < 12\<close>; at 12 the effect hands the state
  to \<^verbatim>\<open>onNext\<close> and stops.
\<close>

definition month_step :: "race \<Rightarrow> race" where
  "month_step s =
     (case find (\<lambda>e. month e = currentMonth s) emergencyEvents of
        Some emergency \<Rightarrow>
          s\<lparr>emergencies := emergencies s @ [emergency],
            sarah := sarah_emergency emergency (sarah s),
            mike := mike_emergency emergency (mike s),
            currentMonth := currentMonth s + 1\<rparr>
      | None \<Rightarrow>
          s\<lparr>sarah := sarah_normal (sarah s),
            mike := mike_normal (mike s),
            currentMonth := currentMonth s + 1\<rparr>)"

function run_race :: "race \<Rightarrow> race" where
  "run_race s = (if currentMonth s \<ge> 12 then s else run_race (month_step s))"
  by pat_completeness auto
termination
  by (relation "measure (\<lambda>s. 12 - currentMonth s)")
    (auto simp: month_step_def split: option.splits)

declare run_race.simps [simp del]

section \<open>Budget builder: the 50/30/20 score\<close>

text \<open>
  \<^verbatim>\<open>StepVisualize\<close>. The overall score rounds a mean that can lie within one rounding
  error of a tie, so every operation carries its rounding to double precision; the
  percentages divide by the income, so they are numbers of the source language.
\<close>

datatype BudgetType = needs | wants | savings

record BudgetItem =
  category :: string
  amount :: real
  type :: BudgetType

definition totalOf :: "BudgetType \<Rightarrow> BudgetItem list \<Rightarrow> real" where
  "totalOf t budget =
     foldl (\<lambda>sum item. r64 (sum + amount item)) 0 (filter (\<lambda>item. type item = t) budget)"

definition percentOf :: "real \<Rightarrow> real \<Rightarrow> jsnum" where
  "percentOf bucketTotal income =
     js_rnd (js_mul (js_rnd (js_div (Num bucketTotal) (Num income))) (Num 100))"

definition needsPercent :: "real \<Rightarrow> BudgetItem list \<Rightarrow> jsnum" where
  "needsPercent income budget = percentOf (totalOf needs budget) income"

definition wantsPercent :: "real \<Rightarrow> BudgetItem list \<Rightarrow> jsnum" where
  "wantsPercent income budget = percentOf (totalOf wants budget) income"

definition savingsPercent :: "real \<Rightarrow> BudgetItem list \<Rightarrow> jsnum" where
  "savingsPercent income budget = percentOf (totalOf savings budget) income"

definition needsScore :: "real \<Rightarrow> BudgetItem list \<Rightarrow> jsnum" where
  "needsScore income budget =
     js_max (Num 0)
       (js_rnd (js_sub (Num 100)
          (js_rnd (js_mul (js_abs (js_rnd (js_sub (needsPercent income budget) (Num 50))))
                          (Num 2)))))"

definition wantsScore :: "real \<Rightarrow> BudgetItem list \<Rightarrow> jsnum" where
  "wantsScore income budget =
     js_max (Num 0)
       (js_rnd (js_sub (Num 100)
          (js_rnd (js_mul (js_abs (js_rnd (js_sub (wantsPercent income budget) (Num 30))))
                          (Num 3)))))"

definition savingsScore :: "real \<Rightarrow> BudgetItem list \<Rightarrow> jsnum" where
  "savingsScore income budget =
     js_max (Num 0)
       (js_rnd (js_sub (Num 100)
          (js_rnd (js_mul (js_abs (js_rnd (js_sub (savingsPercent income budget) (Num 20))))
                          (Num 4)))))"

definition overallScore :: "real \<Rightarrow> BudgetItem list \<Rightarrow> jsnum" where
  "overallScore income budget =
     js_round
       (js_rnd (js_div
          (js_rnd (js_add (js_rnd (js_add (needsScore income budget) (wantsScore income budget)))
                          (savingsScore income budget)))
          (Num 3)))"

text \<open>
  The budget \<^verbatim>\<open>handleSubmit\<close> builds from the twelve sliders of \<^verbatim>\<open>StepAllocate\<close>, and
  the values the sliders start from (products of the income and a decimal literal).
\<close>

definition submittedBudget ::
  "real \<Rightarrow> real \<Rightarrow> real \<Rightarrow> real \<Rightarrow> real \<Rightarrow> real \<Rightarrow> real \<Rightarrow> real \<Rightarrow> real \<Rightarrow> real \<Rightarrow> real \<Rightarrow> real
     \<Rightarrow> BudgetItem list" where
  "submittedBudget housing utilities groceries transportation insurance
       dining entertainment shopping subscriptions emergency retirement goals =
    [\<lparr>category = ''Housing'', amount = housing, type = needs\<rparr>,
     \<lparr>category = ''Utilities'', amount = utilities, type = needs\<rparr>,
     \<lparr>category = ''Groceries'', amount = groceries, type = needs\<rparr>,
     \<lparr>category = ''Transportation'', amount = transportation, type = needs\<rparr>,
     \<lparr>category = ''Insurance'', amount = insurance, type = needs\<rparr>,
     \<lparr>category = ''Dining Out'', amount = dining, type = wants\<rparr>,
     \<lparr>category = ''Entertainment'', amount = entertainment, type = wants\<rparr>,
     \<lparr>category = ''Shopping'', amount = shopping, type = wants\<rparr>,
     \<lparr>category = ''Subscriptions'', amount = subscriptions, type = wants\<rparr>,
     \<lparr>category = ''Emergency Fund'', amount = emergency, type = savings\<rparr>,
     \<lparr>category = ''Retirement'', amount = retirement, type = savings\<rparr>,
     \<lparr>category = ''Goals'', amount = goals, type = savings\<rparr>]"

definition defaultBudget :: "real \<Rightarrow> BudgetItem list" where
  "defaultBudget income =
     submittedBudget
       (r64 (income * r64 0.30)) (r64 (income * r64 0.05)) (r64 (income * r64 0.08))
       (r64 (income * r64 0.05)) (r64 (income * r64 0.02))
       (r64 (income * r64 0.10)) (r64 (income * r64 0.08)) (r64 (income * r64 0.07))
       (r64 (income * r64 0.05))
       (r64 (income * r64 0.08)) (r64 (income * r64 0.10)) (r64 (income * r64 0.02))"

section \<open>Progress page: levels\<close>

text \<open>The \<^verbatim>\<open>levels\<close> table and the user record of the progress page.\<close>

record Level =
  level :: nat
  name :: string
  minXP :: nat
  maxXP :: nat
  color :: string

definition levels :: "Level list" where
  "levels =
     [\<lparr>level = 1, name = ''Financial Newbie'', minXP = 0, maxXP = 1000, color = ''gray''\<rparr>,
      \<lparr>level = 2, name = ''Money Learner'', minXP = 1000, maxXP = 2500, color = ''blue''\<rparr>,
      \<lparr>level = 3, name = ''Budget Pro'', minXP = 2500, maxXP = 5000, color = ''green''\<rparr>,
      \<lparr>level = 4, name = ''Debt Slayer'', minXP = 5000, maxXP = 10000, color = ''purple''\<rparr>,
      \<lparr>level = 5, name = ''Investment Guru'', minXP = 10000, maxXP = 20000, color = ''yellow''\<rparr>,
      \<lparr>level = 6, name = ''Financial Master'', minXP = 20000, maxXP = 999999, color = ''orange''\<rparr>]"

record UserData =
  currentXP :: nat
  currentLevel :: nat
  simulationsCompleted :: nat
  totalSimulations :: nat
  currentStreak :: nat
  longestStreak :: nat
  totalTimeSpent :: nat
  badgesUnlocked :: nat
  totalBadges :: nat

definition userData :: UserData where
  "userData =
     \<lparr>currentXP = 1250, currentLevel = 2, simulationsCompleted = 2, totalSimulations = 15,
      currentStreak = 7, longestStreak = 12, totalTimeSpent = 180, badgesUnlocked = 2,
      totalBadges = 10\<rparr>"

text \<open>
  The page takes the level from the stored field. \<^verbatim>\<open>find\<close> returns \<^verbatim>\<open>undefined\<close> for a
  level outside the table, here \<open>None\<close>.
\<close>

definition currentLevelData :: "UserData \<Rightarrow> Level option" where
  "currentLevelData u = find (\<lambda>l. level l = currentLevel u) levels"

definition nextLevelData :: "UserData \<Rightarrow> Level option" where
  "nextLevelData u = find (\<lambda>l. level l = currentLevel u + 1) levels"

text \<open>The level list of the implementation roadmap (name, XP threshold).\<close>

definition roadmapLevels :: "(string \<times> nat) list" where
  "roadmapLevels =
     [(''Financial Newbie'', 0), (''Money Student'', 1000), (''Budget Apprentice'', 3000),
      (''Investment Explorer'', 6000), (''Financial Wizard'', 10000),
      (''Financial Master'', 20000)]"

section \<open>XP award\<close>

text \<open>
  Modelled from the spec: the ProgressionEngine's XP award. The gamification service that
  computes it is not among the sources; they only document the multipliers (streak 3-day
  +10%, 7-day +25%, 30-day +100%; perfect score +50%; first try +20%). The bonuses are
  fractions of the base, summed, and the result is rounded.
\<close>

definition first_attempt_bonus :: "bool \<Rightarrow> real" where
  "first_attempt_bonus is_first_attempt = (if is_first_attempt then 0.20 else 0)"

definition perfect_score_bonus :: "real \<Rightarrow> real" where
  "perfect_score_bonus raw_score = (if raw_score \<ge> 95 then 0.50 else 0)"

definition streak_bonus :: "nat \<Rightarrow> real" where
  "streak_bonus current_streak_days =
     (if current_streak_days \<ge> 30 then 1.00
      else if current_streak_days \<ge> 7 then 0.25
      else if current_streak_days \<ge> 3 then 0.10
      else 0)"

definition xp_award :: "nat \<Rightarrow> real \<Rightarrow> bool \<Rightarrow> nat \<Rightarrow> int" where
  "xp_award base raw_score is_first_attempt current_streak_days =
     round_half_up (real base *
       (1 + (first_attempt_bonus is_first_attempt + perfect_score_bonus raw_score
             + streak_bonus current_streak_days)))"

section \<open>Level of a progression state\<close>

text \<open>
  Modelled from the spec: the level of a user in the ProgressionEngine. The engine is not
  among the sources; the pages only display a level they are given. The progression state
  holds the total XP and no level: the level is the greatest level id whose minimum XP is
  at most the total XP, read from the table of the progress page on every use.
\<close>

record ProgressionState =
  total_xp :: nat
  unlocked_badge_ids :: "string set"
  current_streak_days :: nat
  longest_streak_days :: nat
  last_activity_date :: nat

definition level_of_xp :: "nat \<Rightarrow> nat" where
  "level_of_xp xp = Max (set (map level (filter (\<lambda>l. minXP l \<le> xp) levels)))"

definition current_level :: "ProgressionState \<Rightarrow> nat" where
  "current_level st = level_of_xp (total_xp st)"

section \<open>Auxiliary facts\<close>

lemma round_even_of_int [simp]: "round_even (of_int m) = m"
  by (simp add: round_even_def)

lemma round_even_nonpos: "q \<le> 0 \<Longrightarrow> round_even q \<le> 0"
  unfolding round_even_def Let_def by (auto; linarith)

lemma r64_nonpos: "x \<le> 0 \<Longrightarrow> r64 x \<le> 0"
proof -
  assume x: "x \<le> 0"
  have "of_int (round_even (x / u)) * u \<le> 0" if "0 < u" for u :: real
  proof -
    have "x / u \<le> 0" using x that by (simp add: divide_le_0_iff)
    then have "round_even (x / u) \<le> 0" by (rule round_even_nonpos)
    then have "(of_int (round_even (x / u)) :: real) \<le> 0" by simp
    then show ?thesis using that by (simp add: mult_le_0_iff)
  qed
  then show ?thesis by (simp add: r64_def Let_def)
qed

lemma two_powr_int: "(2::real) powr of_int k = 2 powi k"
  by (rule powr_real_of_int') simp_all

lemma two_powi_less_imp:
  assumes "(2::real) powi a < 2 powi b"
  shows "a < b"
proof (rule ccontr)
  assume "\<not> a < b"
  then have "b \<le> a" by simp
  then have "(2::real) powi b \<le> 2 powi a"
    by (intro power_int_increasing) simp_all
  with assms show False by simp
qed

lemma floor_log2_bounds:
  assumes "0 < y"
  shows "2 powi \<lfloor>log 2 y\<rfloor> \<le> y" "y < 2 powi (\<lfloor>log 2 y\<rfloor> + 1)"
proof -
  have "2 powr of_int \<lfloor>log 2 y\<rfloor> \<le> y \<and> y < 2 powr of_int (\<lfloor>log 2 y\<rfloor> + 1)"
    using floor_log_eq_powr_iff [of y 2 "\<lfloor>log 2 y\<rfloor>"] assms by simp
  then show "2 powi \<lfloor>log 2 y\<rfloor> \<le> y" "y < 2 powi (\<lfloor>log 2 y\<rfloor> + 1)"
    unfolding two_powr_int by simp_all
qed

lemma floor_log2_eq:
  assumes "2 powi e \<le> y" "y < 2 powi (e + 1)"
  shows "\<lfloor>log 2 y\<rfloor> = e"
proof -
  have pos: "0 < y"
    using assms(1) by (rule less_le_trans [rotated]) simp
  have "2 powr of_int e \<le> y \<and> y < 2 powr of_int (e + 1)"
    unfolding two_powr_int using assms by simp
  then show ?thesis
    using floor_log_eq_powr_iff [of y 2 e] pos by simp
qed

text \<open>Within one binade the spacing of the doubles is fixed.\<close>

lemma r64_exponent:
  assumes "2 powi e \<le> \<bar>x\<bar>" "\<bar>x\<bar> < 2 powi (e + 1)" "- 1022 \<le> e"
  shows "r64 x = of_int (round_even (x / 2 powi (e - 52))) * 2 powi (e - 52)"
proof -
  have "0 < \<bar>x\<bar>"
    using assms(1) by (rule less_le_trans [rotated]) simp
  then have nz: "x \<noteq> 0" by simp
  have "\<lfloor>log 2 \<bar>x\<bar>\<rfloor> = e"
    using assms(1,2) by (rule floor_log2_eq)
  then show ?thesis
    using nz assms(3) by (simp add: r64_def Let_def max_def)
qed

lemma r64_binade:
  assumes "1 \<le> \<bar>x\<bar>" "\<bar>x\<bar> < 2"
  shows "r64 x = of_int (round_even (x * 2 ^ 52)) / 2 ^ 52"
proof -
  have u: "(2::real) powi (0 - 52) = 1 / 2 ^ 52"
    by (simp add: power_int_minus field_simps)
  have "r64 x = of_int (round_even (x / 2 powi (0 - 52))) * 2 powi (0 - 52)"
    using assms by (intro r64_exponent) simp_all
  then show ?thesis
    unfolding u by simp
qed

text \<open>Rounding commutes with a change of binade.\<close>

lemma r64_double:
  assumes "2 powi (- 1022) \<le> \<bar>x\<bar>"
  shows "r64 (2 * x) = 2 * r64 x"
proof -
  have pos: "0 < \<bar>x\<bar>"
    using assms by (rule less_le_trans [rotated]) simp
  define e where "e = \<lfloor>log 2 \<bar>x\<bar>\<rfloor>"
  have b: "2 powi e \<le> \<bar>x\<bar>" "\<bar>x\<bar> < 2 powi (e + 1)"
    unfolding e_def using floor_log2_bounds [OF pos] by simp_all
  have "2 powi (- 1022) < (2::real) powi (e + 1)"
    using assms b(2) by linarith
  then have "- 1022 < e + 1"
    by (rule two_powi_less_imp)
  then have e: "- 1022 \<le> e"
    by simp
  have c: "2 powi (e + 1) \<le> \<bar>2 * x\<bar>" "\<bar>2 * x\<bar> < 2 powi (e + 1 + 1)"
    using b by (simp_all add: power_int_add abs_mult)
  have u: "(2::real) powi (e + 1 - 52) = 2 * 2 powi (e - 52)"
    by (simp add: power_int_add power_int_diff)
  have e': "- 1022 \<le> e + 1" using e by simp
  show ?thesis
    unfolding r64_exponent [OF b e] r64_exponent [OF c e'] u
    by simp
qed

lemma r64_step_down: "2 \<le> \<bar>x\<bar> \<Longrightarrow> r64 x = 2 * r64 (x / 2)"
proof -
  assume a: "2 \<le> \<bar>x\<bar>"
  have "(2::real) powi (- 1022) \<le> 1"
    by (simp add: power_int_minus field_simps)
  then have "2 powi (- 1022) \<le> \<bar>x / 2\<bar>"
    using a by simp
  from r64_double [OF this] show ?thesis by simp
qed

lemma r64_step_up: "\<bar>x\<bar> < 1 \<Longrightarrow> 1 / 2 ^ 200 \<le> \<bar>x\<bar> \<Longrightarrow> r64 x = r64 (2 * x) / 2"
proof -
  assume a: "1 / 2 ^ 200 \<le> \<bar>x\<bar>"
  have "(2::real) powi (- 1022) \<le> 2 powi (- 200)"
    by (rule power_int_increasing) simp_all
  also have "(2::real) powi (- 200) = 1 / 2 ^ 200"
    by (simp add: power_int_minus field_simps)
  finally have "2 powi (- 1022) \<le> \<bar>x\<bar>"
    using a by simp
  from r64_double [OF this] show ?thesis by simp
qed

text \<open>The three rules that evaluate \<open>r64\<close> on a numeral, with the rounding itself.\<close>

lemmas r64_eval = r64_step_down r64_step_up r64_binade round_even_def

text \<open>Whole numbers below \<open>2^53\<close> are doubles.\<close>

lemma r64_of_nat:
  assumes "k < 2 ^ 53"
  shows "r64 (of_nat k) = of_nat k"
proof (cases "k = 0")
  case True
  then show ?thesis by (simp add: r64_def)
next
  case False
  define y :: real where "y = of_nat k"
  have y1: "1 \<le> y" using False by (simp add: y_def)
  then have pos: "0 < y" by simp
  define e where "e = \<lfloor>log 2 y\<rfloor>"
  have b: "2 powi e \<le> y" "y < 2 powi (e + 1)"
    unfolding e_def using floor_log2_bounds [OF pos] by simp_all
  have "(2::real) powi 0 < 2 powi (e + 1)"
    using y1 b(2) by simp
  then have "0 < e + 1"
    by (rule two_powi_less_imp)
  then have e0: "0 \<le> e"
    by simp
  have "y < 2 ^ 53"
    using assms unfolding y_def by (metis of_nat_less_iff of_nat_numeral of_nat_power)
  then have "(2::real) powi e < 2 powi 53"
    using b(1) by simp
  then have "e < 53"
    by (rule two_powi_less_imp)
  then have e52: "e \<le> 52"
    by simp
  define j where "j = nat (52 - e)"
  have u: "(2::real) powi (e - 52) = 1 / 2 ^ j"
  proof -
    have "e - 52 = - int j" using e52 by (simp add: j_def)
    then have "(2::real) powi (e - 52) = 2 powi (- int j)" by simp
    also have "\<dots> = 1 / 2 ^ j" by (simp add: power_int_minus field_simps)
    finally show ?thesis .
  qed
  have "y / 2 powi (e - 52) = of_int (int k * 2 ^ j)"
    unfolding u y_def by simp
  then have "round_even (y / 2 powi (e - 52)) = int k * 2 ^ j"
    by (simp only: round_even_of_int)
  moreover have "r64 y = of_int (round_even (y / 2 powi (e - 52))) * 2 powi (e - 52)"
    using b e0 pos by (intro r64_exponent) simp_all
  ultimately show ?thesis
    unfolding u y_def by simp
qed

text \<open>
  The payoff loop at a balance of 1000, 30% APR and a payment of 25: the computed rate is
  just below 0.025, the computed interest just below 25, and the principal paid is lost
  when it is subtracted from the balance, so every month repeats the first.
\<close>

lemma interest_1000_30:
  "r64 (1000 * monthlyRate64 30) = 25 - 1 / 2 ^ 48"
  by (simp add: monthlyRate64_def r64_eval)

lemma principal_1000_30:
  "r64 (1 / 281474976710656) = 1 / 281474976710656"
  "r64 (281474976710655999 / 281474976710656) = 1000"
  by (simp_all add: r64_eval)

lemma payoff_loop_1000_30:
  "n \<le> 600 \<Longrightarrow>
   payoff_loop 1000 (monthlyRate64 30) 25 1000 (25 * real n) n
     = \<lparr>months = 600, totalPaid = Num 15000, totalInterest = Num 14000\<rparr>"
proof (induction "600 - n" arbitrary: n)
  case 0
  then have n: "n = 600" by simp
  have "r64 (real (14000::nat)) = real (14000::nat)"
    by (rule r64_of_nat) simp
  then have "r64 14000 = 14000" by simp
  then show ?case
    unfolding n by (subst payoff_loop.simps) simp
next
  case (Suc k)
  then have n: "n < 600" and k: "k = 600 - (n + 1)" and le: "n + 1 \<le> 600"
    by simp_all
  have "r64 (real (25 * (n + 1))) = real (25 * (n + 1))"
    by (rule r64_of_nat) (use n in simp)
  then have paid: "r64 (25 * real n + 25) = 25 * real (n + 1)"
    by (simp add: algebra_simps)
  have "payoff_loop 1000 (monthlyRate64 30) 25 1000 (25 * real n) n
      = payoff_loop 1000 (monthlyRate64 30) 25 1000 (25 * real (n + 1)) (n + 1)"
    using n
    by (subst payoff_loop.simps)
      (simp add: Let_def interest_1000_30 principal_1000_30 paid min_def)
  also have "\<dots> = \<lparr>months = 600, totalPaid = Num 15000, totalInterest = Num 14000\<rparr>"
    using Suc.hyps(1) [OF k le] .
  finally show ?case .
qed

lemma interest_5000_22: "50 \<le> r64 (5000 * monthlyRate64 22)"
  by (simp add: monthlyRate64_def r64_eval)

lemma interest_15000_30: "50 \<le> r64 (15000 * monthlyRate64 30)"
  by (simp add: monthlyRate64_def r64_eval)

lemma payoff_loop_months_le:
  "n \<le> 600 \<Longrightarrow> months (payoff_loop b r p rb tp n) \<le> 600"
  by (induction b r p rb tp n rule: payoff_loop.induct)
    (subst payoff_loop.simps, simp add: Let_def)

lemma annuity_bounds:
  "(221 / 100 :: real) < (151 / 150) ^ 120" "(151 / 150 :: real) ^ 120 < 223 / 100"
  "(10 :: real) < (27 / 25) ^ 30"
  by (simp_all add: power_divide)

lemma js_mul_NaN_right: "js_mul x NaN = NaN"
  by (cases x) simp_all

lemma finalValue_closed_form:
  "finalValue age m y =
     (let annuity = m * (((151 / 150) ^ (y * 12) - 1) * 150)
      in if age + y < 65 then annuity * (27 / 25) ^ (65 - (age + y)) else annuity)"
proof -
  have "nat (65 - (int age + int y)) = 65 - (age + y)"
    by linarith
  then show ?thesis
    by (simp add: finalValue_def returnRate_def Let_def)
qed

lemma find_emergency:
  "e \<in> set emergencyEvents \<Longrightarrow> find (\<lambda>x. month x = month e) emergencyEvents = Some e"
  by (auto simp: emergencyEvents_def)

lemma find_no_emergency:
  "m \<notin> {2, 5, 8, 11} \<Longrightarrow> find (\<lambda>x. month x = m) emergencyEvents = None"
  by (auto simp: emergencyEvents_def)

lemma race_walk:
  "map month (emergencies (run_race initial_race)) = [2, 5, 8, 11] \<and>
   currentMonth (run_race initial_race) = 12 \<and>
   emergencyFund (sarah (run_race initial_race)) = 4700 \<and>
   debt (sarah (run_race initial_race)) = 0"
  apply (simp add: initial_race_def)
  apply (subst run_race.simps,
      simp add: month_step_def emergencyEvents_def sarah_emergency_def sarah_normal_def
        mike_normal_def mike_emergency_def)+
  done

lemma r64_zero: "r64 0 = 0"
  by (simp add: r64_def)

lemma r64_small_numbers:
  "r64 100 = 100" "r64 200 = 200" "r64 300 = 300"
  by (simp_all add: r64_eval)

lemma defaultBudget_amounts:
  "defaultBudget 4000 =
     submittedBudget 1200 200 320 200 80 400 320 280 200 320 400 80"
  by (simp add: defaultBudget_def r64_eval)

lemma defaultBudget_totals:
  "totalOf needs (defaultBudget 4000) = 2000"
  "totalOf wants (defaultBudget 4000) = 1200"
  "totalOf savings (defaultBudget 4000) = 800"
  by (simp_all add: defaultBudget_amounts totalOf_def submittedBudget_def r64_eval)

lemma defaultBudget_percents:
  "needsPercent 4000 (defaultBudget 4000) = Num 50"
  "wantsPercent 4000 (defaultBudget 4000) = Num 30"
  "savingsPercent 4000 (defaultBudget 4000) = Num 20"
  by (simp_all add: needsPercent_def wantsPercent_def savingsPercent_def percentOf_def
      defaultBudget_totals r64_eval)

text \<open>
  A balanced budget on the slider grid for an income of 2000 (825 for needs, 1100 for
  wants, 75 for savings): the wants percentage comes out one unit in the last place above
  55, which carries the mean from just above 47.5 to just below it.
\<close>

lemma lopsided_totals:
  "totalOf needs (submittedBudget 400 100 150 100 75 500 300 200 100 25 25 25) = 825"
  "totalOf wants (submittedBudget 400 100 150 100 75 500 300 200 100 25 25 25) = 1100"
  "totalOf savings (submittedBudget 400 100 150 100 75 500 300 200 100 25 25 25) = 75"
  by (simp_all add: totalOf_def submittedBudget_def r64_eval)

lemma lopsided_scores:
  "needsScore 2000 (submittedBudget 400 100 150 100 75 500 300 200 100 25 25 25) = Num (165 / 2)"
  "wantsScore 2000 (submittedBudget 400 100 150 100 75 500 300 200 100 25 25 25)
     = Num (25 - 1 / 2 ^ 45)"
  "savingsScore 2000 (submittedBudget 400 100 150 100 75 500 300 200 100 25 25 25) = Num 35"
  by (simp_all add: needsScore_def wantsScore_def savingsScore_def needsPercent_def
      wantsPercent_def savingsPercent_def percentOf_def lopsided_totals js_sub_def r64_eval)

lemma lopsided_mean:
  "r64 (r64 (r64 (165 / 2 + (25 - 1 / 2 ^ 45)) + 35) / 3) = 95 / 2 - 1 / 2 ^ 47"
  by (simp add: r64_eval)

section \<open>Theorems\<close>

text \<open>
  C5. With a daily cost of 5.50 on 5 days a week over 52 weeks the annual cost is 1430;
  for every guess \<open>g\<close> the score is \<open>100 - |1430 - g| / 1430 * 100\<close>, floored at 0 and
  rounded to the nearest integer, so it lies between 0 and 100; a guess of 500 scores 35.
\<close>

theorem C5_habit_cost_score:
  "annualCost 5.50 5 52 = 1430 \<and> actualCost = 1430 \<and>
   score g = round_half_up (max 0 (100 - \<bar>1430 - g\<bar> / 1430 * 100)) \<and>
   0 \<le> score g \<and> score g \<le> 100 \<and>
   score 500 = 35"
proof -
  have a: "actualCost = 1430"
    by (simp add: actualCost_def)
  have s: "score x = round_half_up (max 0 (100 - \<bar>1430 - x\<bar> / 1430 * 100))" for x
    by (simp add: score_def accuracyPercent_def difference_def a)
  have lo: "0 \<le> score g"
    unfolding s round_half_up_def by (simp add: le_floor_iff max_def)
  have "max 0 (100 - \<bar>1430 - g\<bar> / 1430 * 100) \<le> 100"
    by simp
  then have "max 0 (100 - \<bar>1430 - g\<bar> / 1430 * 100) + 1 / 2 < 101"
    by linarith
  then have hi: "score g \<le> 100"
    unfolding s round_half_up_def by (subst floor_le_iff) simp
  have "(100 - \<bar>1430 - 500\<bar> / 1430 * 100 :: real) = 5000 / 143"
    by simp
  then have "round_half_up (max 0 (100 - \<bar>1430 - 500\<bar> / 1430 * 100)) = 35"
    unfolding round_half_up_def by (simp add: floor_eq_iff)
  then have ex: "score 500 = 35"
    using s [of 500] by simp
  show ?thesis
    using a s lo hi ex by (simp add: annualCost_def)
qed

text \<open>
  C9. The allocator is a function of income, fixed expenses and the chosen policy.
  With a positive remainder, spend-first spends 1.3 times the remainder (more than there
  is), saves 0, pays 70 in late fees and misses the bills; bills-first and save-first pay
  the bills on time with no late fee and save 5% of the remainder and 10% of the income.
\<close>

theorem C9_strategy_allocator:
  assumes "0 < income - expenses"
  shows "amount_saved (simulateStrategy income expenses spend_first) = 0 \<and>
         discretionary_spent (simulateStrategy income expenses spend_first)
           = (income - expenses) * 1.3 \<and>
         discretionary_spent (simulateStrategy income expenses spend_first)
           > income - expenses \<and>
         late_fees (simulateStrategy income expenses spend_first) = 70 \<and>
         \<not> bills_paid_on_time (simulateStrategy income expenses spend_first) \<and>
         bills_paid_on_time (simulateStrategy income expenses bills_first) \<and>
         late_fees (simulateStrategy income expenses bills_first) = 0 \<and>
         amount_saved (simulateStrategy income expenses bills_first)
           = (income - expenses) * 0.05 \<and>
         bills_paid_on_time (simulateStrategy income expenses save_first) \<and>
         late_fees (simulateStrategy income expenses save_first) = 0 \<and>
         amount_saved (simulateStrategy income expenses save_first) = income * 0.10"
  using assms by (simp add: simulateStrategy_def Let_def)

theorem C9_strategy_allocator_witness:
  "(0::real) < 4000 - 2600 \<and>
   discretionary_spent (simulateStrategy 4000 2600 spend_first) = 1820 \<and>
   late_fees (simulateStrategy 4000 2600 spend_first) = 70 \<and>
   amount_saved (simulateStrategy 4000 2600 bills_first) = 70 \<and>
   amount_saved (simulateStrategy 4000 2600 save_first) = 400"
  using C9_strategy_allocator [of 4000 2600] by simp

text \<open>
  C1, as the code has it. For every positive balance and every APR, a monthly payment at
  or below the first month's interest charge, as the loop computes it in double
  precision, makes \<^verbatim>\<open>calculatePayoff\<close> return, on its first iteration, the fixed
  object with 600 months and infinite totals; the loop is capped, so the function is
  total and never reports more than 600 months. The object carries no minimum payment.
\<close>

theorem C1_payoff_nonconvergent_sentinel:
  assumes "0 < bal" and "pay \<le> r64 (bal * monthlyRate64 apr)"
  shows "calculatePayoff bal apr pay
           = \<lparr>months = 600, totalPaid = PosInf, totalInterest = PosInf\<rparr> \<and>
         months (calculatePayoff b' apr' pay') \<le> 600"
proof -
  have "r64 (pay - r64 (bal * monthlyRate64 apr)) \<le> 0"
    using assms(2) by (intro r64_nonpos) simp
  then have "calculatePayoff bal apr pay
      = \<lparr>months = 600, totalPaid = PosInf, totalInterest = PosInf\<rparr>"
    using assms(1) unfolding calculatePayoff_def
    by (subst payoff_loop.simps) (simp add: Let_def min_def)
  moreover have "months (calculatePayoff b' apr' pay') \<le> 600"
    unfolding calculatePayoff_def by (rule payoff_loop_months_le) simp
  ultimately show ?thesis by simp
qed

theorem C1_payoff_nonconvergent_sentinel_witness:
  "(0::real) < 5000 \<and> (50::real) \<le> r64 (5000 * monthlyRate64 22) \<and>
   calculatePayoff 5000 22 50 = \<lparr>months = 600, totalPaid = PosInf, totalInterest = PosInf\<rparr>"
proof -
  have h: "(0::real) < 5000" "(50::real) \<le> r64 (5000 * monthlyRate64 22)"
    using interest_5000_22 by simp_all
  from C1_payoff_nonconvergent_sentinel [OF h] h show ?thesis by simp
qed

text \<open>
  C1, counterexample. The claim as stated fails twice. With a balance of 1000 at 30% APR
  the page's minimum payment of 25 equals the balance times the monthly rate, and the
  result is an ordinary one: 600 months, 15000 paid, 14000 interest. And the result for
  5000 at 22% and the result for 15000 at 30%, both with a payment of 50, are the same
  object, although the payments that would converge start above different thresholds.
\<close>

theorem C1_no_minimum_payment_counterexample:
  "(25::real) \<le> 1000 * (30 / 100 / 12) \<and>
   calculatePayoff 1000 30 25 = \<lparr>months = 600, totalPaid = Num 15000, totalInterest = Num 14000\<rparr> \<and>
   calculatePayoff 5000 22 50 = \<lparr>months = 600, totalPaid = PosInf, totalInterest = PosInf\<rparr> \<and>
   calculatePayoff 15000 30 50 = calculatePayoff 5000 22 50 \<and>
   (5000::real) * (22 / 100 / 12) \<noteq> 15000 * (30 / 100 / 12)"
proof -
  have a: "calculatePayoff 1000 30 25
      = \<lparr>months = 600, totalPaid = Num 15000, totalInterest = Num 14000\<rparr>"
    unfolding calculatePayoff_def using payoff_loop_1000_30 [of 0] by simp
  have "r64 (50 - r64 (5000 * monthlyRate64 22)) \<le> 0"
    using interest_5000_22 by (intro r64_nonpos) simp
  then have b: "calculatePayoff 5000 22 50
      = \<lparr>months = 600, totalPaid = PosInf, totalInterest = PosInf\<rparr>"
    unfolding calculatePayoff_def
    by (subst payoff_loop.simps) (simp add: Let_def min_def)
  have "r64 (50 - r64 (15000 * monthlyRate64 30)) \<le> 0"
    using interest_15000_30 by (intro r64_nonpos) simp
  then have c: "calculatePayoff 15000 30 50
      = \<lparr>months = 600, totalPaid = PosInf, totalInterest = PosInf\<rparr>"
    unfolding calculatePayoff_def
    by (subst payoff_loop.simps) (simp add: Let_def min_def)
  show ?thesis using a b c by simp
qed

text \<open>
  C8. At the common horizon of age 65 and the fixed 8% return, Emma (300 a month from 25
  to 35) ends above Steven (300 a month from 35 to 65) and above Larry (500 a month from
  45 to 65); Steven ends above Larry.
\<close>

theorem C8_early_contributor_wins:
  "balance (emma 65) > balance (steven 65) \<and> balance (emma 65) > balance (larry 65) \<and>
   balance (steven 65) > balance (larry 65)"
proof -
  define x :: real where "x = (151 / 150) ^ 120"
  define g :: real where "g = (27 / 25) ^ 30"
  have x0: "221 / 100 < x" and x2: "x < 223 / 100" and g10: "10 < g"
    using annuity_bounds by (simp_all add: x_def g_def)
  have x1: "0 < x - 1"
    using x0 by simp
  have p3: "(151 / 150 :: real) ^ 360 = x ^ 3" and p2: "(151 / 150 :: real) ^ 240 = x ^ 2"
    by (simp_all add: x_def flip: power_mult)
  have e: "balance (emma 65) = 45000 * ((x - 1) * g)"
    by (simp add: emma_def calculateValue_def returnRate_def Let_def x_def g_def)
  have "balance (steven 65) = 45000 * (x ^ 3 - 1)"
    unfolding steven_def calculateValue_def returnRate_def Let_def by (simp add: p3)
  also have "x ^ 3 - 1 = (x - 1) * (x\<^sup>2 + x + 1)"
    by (simp add: algebra_simps power3_eq_cube power2_eq_square)
  finally have s: "balance (steven 65) = 45000 * ((x - 1) * (x\<^sup>2 + x + 1))" .
  have "balance (larry 65) = 75000 * (x\<^sup>2 - 1)"
    unfolding larry_def calculateValue_def returnRate_def Let_def by (simp add: p2)
  also have "x\<^sup>2 - 1 = (x - 1) * (x + 1)"
    by (simp add: algebra_simps power2_eq_square)
  finally have l: "balance (larry 65) = 75000 * ((x - 1) * (x + 1))" .
  define P where "P = (x - 1) * (x + 1)"
  define Q where "Q = (x - 1) * g"
  define R where "R = (x - 1) * (x\<^sup>2 + x + 1)"
  have "x * x < (223 / 100) * (223 / 100)"
    using x0 x2 by (intro mult_strict_mono) simp_all
  then have q: "x\<^sup>2 + x + 1 < g"
    using x2 g10 by (simp add: power2_eq_square)
  have RQ: "R < Q"
    unfolding R_def Q_def using q x1 by (rule mult_strict_left_mono)
  have "(5 / 3) * (x + 1) < g"
    using x2 g10 by simp
  then have "(x - 1) * ((5 / 3) * (x + 1)) < Q"
    unfolding Q_def using x1 by (rule mult_strict_left_mono)
  moreover have "(x - 1) * ((5 / 3) * (x + 1)) = (5 / 3) * P"
    by (simp add: P_def)
  ultimately have PQ: "(5 / 3) * P < Q"
    by simp
  have "(221 / 100) * (221 / 100) < x * x"
    using x0 by (intro mult_strict_mono) simp_all
  then have "(5 / 3) * (x + 1) < x\<^sup>2 + x + 1"
    using x0 x2 by (simp add: power2_eq_square)
  then have "(x - 1) * ((5 / 3) * (x + 1)) < R"
    unfolding R_def using x1 by (rule mult_strict_left_mono)
  moreover have "(x - 1) * ((5 / 3) * (x + 1)) = (5 / 3) * P"
    by (simp add: P_def)
  ultimately have PR: "(5 / 3) * P < R"
    by simp
  have es: "balance (emma 65) > balance (steven 65)"
    using RQ by (simp add: e s R_def [symmetric] Q_def [symmetric])
  have el: "balance (emma 65) > balance (larry 65)"
    using PQ by (simp add: e l P_def [symmetric] Q_def [symmetric])
  have sl: "balance (steven 65) > balance (larry 65)"
    using PR by (simp add: s l P_def [symmetric] R_def [symmetric])
  show ?thesis using es el sl by simp
qed

text \<open>
  C10. The minimum-payment preview is not total. Whenever the minimum payment
  \<open>max(25, 0.02 * balance)\<close> is below the first month's interest, the quotient under the
  logarithm is negative, and the months to pay off, the total paid and the total interest
  are all \<^verbatim>\<open>NaN\<close>. A balance of 5000 at 30% APR, inside both slider ranges, is such an
  input.
\<close>

theorem C10_minimum_payment_preview_nan:
  assumes "minimumPayment bal < bal * monthlyRate apr"
  shows "minimumPayment bal / (minimumPayment bal - bal * monthlyRate apr) < 0 \<and>
         monthsToPayoff bal apr = NaN \<and> previewTotalPaid bal apr = NaN \<and>
         previewTotalInterest bal apr = NaN"
proof -
  have pos: "0 < minimumPayment bal"
    by (simp add: minimumPayment_def max_def)
  have neg: "minimumPayment bal - bal * monthlyRate apr < 0"
    using assms by simp
  have q: "minimumPayment bal / (minimumPayment bal - bal * monthlyRate apr) < 0"
    using pos neg by (simp add: divide_pos_neg)
  have m: "monthsToPayoff bal apr = NaN"
    unfolding monthsToPayoff_def using neg q by simp
  have t: "previewTotalPaid bal apr = NaN"
    by (simp add: previewTotalPaid_def m js_mul_NaN_right)
  have i: "previewTotalInterest bal apr = NaN"
    by (simp add: previewTotalInterest_def t js_sub_def)
  show ?thesis using q m t i by simp
qed

theorem C10_minimum_payment_preview_nan_witness:
  "(1000::real) \<le> 5000 \<and> (5000::real) \<le> 15000 \<and> (15::real) \<le> 30 \<and> (30::real) \<le> 30 \<and>
   minimumPayment 5000 < 5000 * monthlyRate 30 \<and>
   monthsToPayoff 5000 30 = NaN \<and> previewTotalPaid 5000 30 = NaN \<and>
   previewTotalInterest 5000 30 = NaN"
proof -
  have h: "minimumPayment 5000 < 5000 * monthlyRate 30"
    by (simp add: minimumPayment_def monthlyRate_def)
  from C10_minimum_payment_preview_nan [OF h] h show ?thesis by simp
qed

text \<open>
  C4, as the code has it. \<^verbatim>\<open>calculateFutureValue\<close> returns 0 for zero years, and for any
  non-zero rate the ordinary-annuity value \<open>pmt * ((1 + rate)^years - 1) / rate\<close>; the
  division by the rate is not guarded, so a rate of 0 over one or more years gives
  \<^verbatim>\<open>NaN\<close>. Both call sites fix the return at 8%: the chart rows of the habit-cost page
  are finite, and the compound-growth calculator divides by the constant monthly rate.
\<close>

theorem C4_future_value_unguarded_rate:
  "calculateFutureValue pmt rate years =
     (if years = 0 then Num 0
      else if rate = 0 then NaN
      else Num (pmt * (((1 + rate) ^ years - 1) / rate))) \<and>
   invested_at pmt years = Num (pmt * (((27 / 25) ^ years - 1) / (2 / 25))) \<and>
   finalValue age pmt years =
     (let annuity = pmt * (((151 / 150) ^ (years * 12) - 1) * 150)
      in if age + years < 65 then annuity * (27 / 25) ^ (65 - (age + years)) else annuity)"
  by (simp add: calculateFutureValue_def invested_at_def finalValue_closed_form)

theorem C4_future_value_unguarded_rate_witness:
  "calculateFutureValue 1430 0.08 2 = Num 2974.4 \<and>
   calculateFutureValue 1430 0.08 0 = Num 0 \<and>
   calculateFutureValue 1430 0 2 = NaN"
  using C4_future_value_unguarded_rate [of 1430 "0.08" 2 25]
    C4_future_value_unguarded_rate [of 1430 "0.08" 0 25]
    C4_future_value_unguarded_rate [of 1430 0 2 25]
  by (simp add: power2_eq_square)

text \<open>
  C4, counterexample. The claim as stated fails: at a rate of 0, 100 a year over 12 years does not give 1200.
\<close>

theorem C4_zero_rate_counterexample:
  "calculateFutureValue 100 0 12 = NaN \<and> calculateFutureValue 100 0 12 \<noteq> Num (100 * 12)"
  by (simp add: calculateFutureValue_def)

text \<open>
  C7. The schedule is the fixed list of four emergencies (months 2, 5, 8, 11 costing 800,
  1200, 600, 900), and a run from the initial state meets exactly these, in order. In a
  month with an emergency, Sarah pays from the fund if it covers the cost and otherwise
  empties the fund and takes the shortfall as debt; Mike adds the whole cost to his debt.
  Mike's debt bears interest: in a month without an emergency a positive debt grows by
  1.8%.
\<close>

theorem C7_emergency_schedule:
  "map (\<lambda>e. (month e, cost e)) emergencyEvents = [(2, 800), (5, 1200), (8, 600), (11, 900)] \<and>
   map month (emergencies (run_race initial_race)) = [2, 5, 8, 11] \<and>
   (\<forall>e \<in> set emergencyEvents. currentMonth s = month e \<longrightarrow>
      emergencyFund (sarah (month_step s)) =
        (if cost e \<le> emergencyFund (sarah s) then emergencyFund (sarah s) - cost e else 0) \<and>
      debt (sarah (month_step s)) =
        (if cost e \<le> emergencyFund (sarah s) then debt (sarah s)
         else debt (sarah s) + (cost e - emergencyFund (sarah s))) \<and>
      debt (mike (month_step s)) = debt (mike s) + cost e \<and>
      emergencies (month_step s) = emergencies s @ [e]) \<and>
   (currentMonth s \<notin> {2, 5, 8, 11} \<longrightarrow>
      debt (mike (month_step s)) =
        (if 0 < debt (mike s) then debt (mike s) * 1.018 else debt (mike s)))"
proof -
  have a: "map (\<lambda>e. (month e, cost e)) emergencyEvents
             = [(2, 800), (5, 1200), (8, 600), (11, 900)]"
    by (simp add: emergencyEvents_def)
  have b: "emergencyFund (sarah (month_step s)) =
        (if cost e \<le> emergencyFund (sarah s) then emergencyFund (sarah s) - cost e else 0) \<and>
      debt (sarah (month_step s)) =
        (if cost e \<le> emergencyFund (sarah s) then debt (sarah s)
         else debt (sarah s) + (cost e - emergencyFund (sarah s))) \<and>
      debt (mike (month_step s)) = debt (mike s) + cost e \<and>
      emergencies (month_step s) = emergencies s @ [e]"
    if "e \<in> set emergencyEvents" "currentMonth s = month e" for e
    using find_emergency [OF that(1)] that(2)
    by (simp add: month_step_def sarah_emergency_def mike_emergency_def Let_def)
  have c: "debt (mike (month_step s)) =
        (if 0 < debt (mike s) then debt (mike s) * 1.018 else debt (mike s))"
    if "currentMonth s \<notin> {2, 5, 8, 11}"
    using find_no_emergency [OF that]
    by (simp add: month_step_def mike_normal_def algebra_simps)
  show ?thesis using a b c race_walk by blast
qed

theorem C7_emergency_schedule_witness:
  "\<lparr>month = 5, kind = ''medical'', cost = 1200\<rparr> \<in> set emergencyEvents \<and>
   emergencyFund (sarah (month_step
     \<lparr>currentMonth = 5,
      sarah = \<lparr>hasEmergencyFund = True, emergencyFund = 500, debt = 0, stress = 2\<rparr>,
      mike = \<lparr>hasEmergencyFund = False, emergencyFund = 0, debt = 800, stress = 8\<rparr>,
      emergencies = []\<rparr>)) = 0 \<and>
   debt (sarah (month_step
     \<lparr>currentMonth = 5,
      sarah = \<lparr>hasEmergencyFund = True, emergencyFund = 500, debt = 0, stress = 2\<rparr>,
      mike = \<lparr>hasEmergencyFund = False, emergencyFund = 0, debt = 800, stress = 8\<rparr>,
      emergencies = []\<rparr>)) = 700 \<and>
   debt (mike (month_step
     \<lparr>currentMonth = 5,
      sarah = \<lparr>hasEmergencyFund = True, emergencyFund = 500, debt = 0, stress = 2\<rparr>,
      mike = \<lparr>hasEmergencyFund = False, emergencyFund = 0, debt = 800, stress = 8\<rparr>,
      emergencies = []\<rparr>)) = 2000 \<and>
   (3::nat) \<notin> {2, 5, 8, 11} \<and>
   debt (mike (month_step
     \<lparr>currentMonth = 3,
      sarah = \<lparr>hasEmergencyFund = True, emergencyFund = 5000, debt = 0, stress = 3\<rparr>,
      mike = \<lparr>hasEmergencyFund = False, emergencyFund = 0, debt = 800, stress = 8\<rparr>,
      emergencies = []\<rparr>)) = 814.4"
  using
    C7_emergency_schedule [of
      "\<lparr>currentMonth = 5,
        sarah = \<lparr>hasEmergencyFund = True, emergencyFund = 500, debt = 0, stress = 2\<rparr>,
        mike = \<lparr>hasEmergencyFund = False, emergencyFund = 0, debt = 800, stress = 8\<rparr>,
        emergencies = []\<rparr>"]
    C7_emergency_schedule [of
      "\<lparr>currentMonth = 3,
        sarah = \<lparr>hasEmergencyFund = True, emergencyFund = 5000, debt = 0, stress = 3\<rparr>,
        mike = \<lparr>hasEmergencyFund = False, emergencyFund = 0, debt = 800, stress = 8\<rparr>,
        emergencies = []\<rparr>"]
  by (simp add: emergencyEvents_def)

text \<open>
  C2. For every income and every allocation the overall score is the rounded mean of the
  three bucket scores, and each bucket score is \<open>max(0, 100 - |percent - target| * factor)\<close>
  with targets 50, 30, 20 and factors 2, 3, 4 for needs, wants and savings, every
  operation in double precision. An allocation whose percentages are exactly 50, 30 and
  20 has deviation 0 in every bucket, scores 100 in every bucket and 100 overall.
\<close>

theorem C2_budget_score:
  "overallScore income budget =
     js_round (js_rnd (js_div
       (js_rnd (js_add (js_rnd (js_add (needsScore income budget) (wantsScore income budget)))
                       (savingsScore income budget)))
       (Num 3))) \<and>
   (\<forall>a b c. needsScore income budget = Num a \<and> wantsScore income budget = Num b \<and>
        savingsScore income budget = Num c \<longrightarrow>
        overallScore income budget
          = Num (of_int (round_half_up (r64 (r64 (r64 (a + b) + c) / 3))))) \<and>
   (\<forall>p. needsPercent income budget = Num p \<longrightarrow>
        needsScore income budget = Num (max 0 (r64 (100 - r64 (\<bar>r64 (p - 50)\<bar> * 2))))) \<and>
   (\<forall>p. wantsPercent income budget = Num p \<longrightarrow>
        wantsScore income budget = Num (max 0 (r64 (100 - r64 (\<bar>r64 (p - 30)\<bar> * 3))))) \<and>
   (\<forall>p. savingsPercent income budget = Num p \<longrightarrow>
        savingsScore income budget = Num (max 0 (r64 (100 - r64 (\<bar>r64 (p - 20)\<bar> * 4))))) \<and>
   (income \<noteq> 0 \<longrightarrow>
        needsPercent income budget = Num (r64 (r64 (totalOf needs budget / income) * 100)) \<and>
        wantsPercent income budget = Num (r64 (r64 (totalOf wants budget / income) * 100)) \<and>
        savingsPercent income budget
          = Num (r64 (r64 (totalOf savings budget / income) * 100))) \<and>
   (needsPercent income budget = Num 50 \<and> wantsPercent income budget = Num 30 \<and>
    savingsPercent income budget = Num 20 \<longrightarrow>
        js_abs (js_rnd (js_sub (needsPercent income budget) (Num 50))) = Num 0 \<and>
        js_abs (js_rnd (js_sub (wantsPercent income budget) (Num 30))) = Num 0 \<and>
        js_abs (js_rnd (js_sub (savingsPercent income budget) (Num 20))) = Num 0 \<and>
        needsScore income budget = Num 100 \<and> wantsScore income budget = Num 100 \<and>
        savingsScore income budget = Num 100 \<and> overallScore income budget = Num 100)"
proof -
  have o: "overallScore income budget
      = Num (of_int (round_half_up (r64 (r64 (r64 (a + b) + c) / 3))))"
    if "needsScore income budget = Num a \<and> wantsScore income budget = Num b \<and>
        savingsScore income budget = Num c" for a b c
    using that by (simp add: overallScore_def)
  have n: "needsScore income budget = Num (max 0 (r64 (100 - r64 (\<bar>r64 (p - 50)\<bar> * 2))))"
    if "needsPercent income budget = Num p" for p
    using that by (simp add: needsScore_def js_sub_def)
  have w: "wantsScore income budget = Num (max 0 (r64 (100 - r64 (\<bar>r64 (p - 30)\<bar> * 3))))"
    if "wantsPercent income budget = Num p" for p
    using that by (simp add: wantsScore_def js_sub_def)
  have s: "savingsScore income budget = Num (max 0 (r64 (100 - r64 (\<bar>r64 (p - 20)\<bar> * 4))))"
    if "savingsPercent income budget = Num p" for p
    using that by (simp add: savingsScore_def js_sub_def)
  have p: "needsPercent income budget = Num (r64 (r64 (totalOf needs budget / income) * 100)) \<and>
        wantsPercent income budget = Num (r64 (r64 (totalOf wants budget / income) * 100)) \<and>
        savingsPercent income budget
          = Num (r64 (r64 (totalOf savings budget / income) * 100))"
    if "income \<noteq> 0"
    using that by (simp add: needsPercent_def wantsPercent_def savingsPercent_def percentOf_def)
  have t: "js_abs (js_rnd (js_sub (needsPercent income budget) (Num 50))) = Num 0 \<and>
        js_abs (js_rnd (js_sub (wantsPercent income budget) (Num 30))) = Num 0 \<and>
        js_abs (js_rnd (js_sub (savingsPercent income budget) (Num 20))) = Num 0 \<and>
        needsScore income budget = Num 100 \<and> wantsScore income budget = Num 100 \<and>
        savingsScore income budget = Num 100 \<and> overallScore income budget = Num 100"
    if h: "needsPercent income budget = Num 50 \<and> wantsPercent income budget = Num 30 \<and>
      savingsPercent income budget = Num 20"
  proof -
    have sc: "needsScore income budget = Num 100" "wantsScore income budget = Num 100"
      "savingsScore income budget = Num 100"
      using n [of 50] w [of 30] s [of 20] h by (simp_all add: r64_zero r64_small_numbers)
    have "r64 (r64 (r64 (100 + 100) + 100) / 3) = 100"
      by (simp add: r64_small_numbers)
    then have "overallScore income budget = Num 100"
      using o [of 100 100 100] sc by (simp add: round_half_up_def)
    then show ?thesis
      using h sc by (simp add: js_sub_def r64_zero)
  qed
  have d: "overallScore income budget =
     js_round (js_rnd (js_div
       (js_rnd (js_add (js_rnd (js_add (needsScore income budget) (wantsScore income budget)))
                       (savingsScore income budget)))
       (Num 3)))"
    by (simp add: overallScore_def)
  show ?thesis using d o n w s p t by blast
qed

theorem C2_budget_score_witness:
  "(4000::real) \<noteq> 0 \<and>
   totalOf needs (defaultBudget 4000) = 2000 \<and> totalOf wants (defaultBudget 4000) = 1200 \<and>
   totalOf savings (defaultBudget 4000) = 800 \<and>
   needsPercent 4000 (defaultBudget 4000) = Num 50 \<and>
   wantsPercent 4000 (defaultBudget 4000) = Num 30 \<and>
   savingsPercent 4000 (defaultBudget 4000) = Num 20 \<and>
   overallScore 4000 (defaultBudget 4000) = Num 100 \<and>
   overallScore 2000 (submittedBudget 400 100 150 100 75 500 300 200 100 25 25 25) = Num 47"
proof -
  have a: "overallScore 4000 (defaultBudget 4000) = Num 100"
    using C2_budget_score [of 4000 "defaultBudget 4000"] defaultBudget_percents by blast
  have r: "round_half_up (95 / 2 - 1 / 2 ^ 47) = 47"
    by (simp add: round_half_up_def floor_eq_iff)
  have "overallScore 2000 (submittedBudget 400 100 150 100 75 500 300 200 100 25 25 25)
      = Num (of_int (round_half_up
          (r64 (r64 (r64 (165 / 2 + (25 - 1 / 2 ^ 45)) + 35) / 3))))"
    using C2_budget_score
      [of 2000 "submittedBudget 400 100 150 100 75 500 300 200 100 25 25 25"]
      lopsided_scores
    by blast
  then have b: "overallScore 2000 (submittedBudget 400 100 150 100 75 500 300 200 100 25 25 25)
      = Num 47"
    unfolding lopsided_mean r by simp
  show ?thesis
    using a b defaultBudget_totals defaultBudget_percents by simp
qed

text \<open>
  C6. Both level tables have strictly increasing XP thresholds and start at 0. The level
  of a progression state is a function of its total XP alone: it is a level of the table
  whose minimum XP is at most the total XP, and no level of the table with that property
  is greater. The level the progress page shows for its user (level 2 at 1250 XP) is the
  level computed from that user's XP.
\<close>

theorem C6_level_from_total_xp:
  "sorted_wrt (<) (map minXP levels) \<and> minXP (hd levels) = 0 \<and>
   sorted_wrt (<) (map snd roadmapLevels) \<and> snd (hd roadmapLevels) = 0 \<and>
   (\<exists>l \<in> set levels. level l = current_level st \<and> minXP l \<le> total_xp st) \<and>
   (\<forall>l \<in> set levels. minXP l \<le> total_xp st \<longrightarrow> level l \<le> current_level st) \<and>
   (total_xp st = currentXP userData \<longrightarrow>
      Some (current_level st) = map_option level (currentLevelData userData) \<and>
      current_level st = currentLevel userData)"
proof -
  have t: "sorted_wrt (<) (map minXP levels) \<and> minXP (hd levels) = 0 \<and>
      sorted_wrt (<) (map snd roadmapLevels) \<and> snd (hd roadmapLevels) = 0"
    by (simp add: levels_def roadmapLevels_def)
  define S where "S = set (map level (filter (\<lambda>l. minXP l \<le> total_xp st) levels))"
  have c: "current_level st = Max S"
    by (simp add: current_level_def level_of_xp_def S_def)
  have fin: "finite S"
    by (simp add: S_def)
  have "hd levels \<in> set levels" "minXP (hd levels) \<le> total_xp st"
    by (simp_all add: levels_def)
  then have "level (hd levels) \<in> S"
    unfolding S_def by auto
  then have ne: "S \<noteq> {}"
    by auto
  have "Max S \<in> S"
    using fin ne by (rule Max_in)
  then have ex: "\<exists>l \<in> set levels. level l = current_level st \<and> minXP l \<le> total_xp st"
    unfolding c S_def by auto
  have ub: "level l \<le> current_level st"
    if "l \<in> set levels" "minXP l \<le> total_xp st" for l
  proof -
    have "level l \<in> S"
      using that unfolding S_def by auto
    then show ?thesis
      unfolding c using fin by (intro Max_ge)
  qed
  have u: "Some (current_level st) = map_option level (currentLevelData userData) \<and>
      current_level st = currentLevel userData"
    if "total_xp st = currentXP userData"
    using that
    by (simp add: current_level_def level_of_xp_def currentLevelData_def userData_def
        levels_def)
  show ?thesis using t ex ub u by blast
qed

theorem C6_level_from_total_xp_witness:
  "\<lparr>level = 2, name = ''Money Learner'', minXP = 1000, maxXP = 2500, color = ''blue''\<rparr>
     \<in> set levels \<and>
   total_xp \<lparr>total_xp = 1250, unlocked_badge_ids = {}, current_streak_days = 7,
             longest_streak_days = 12, last_activity_date = 0\<rparr> = currentXP userData \<and>
   2 \<le> current_level \<lparr>total_xp = 1250, unlocked_badge_ids = {}, current_streak_days = 7,
             longest_streak_days = 12, last_activity_date = 0\<rparr> \<and>
   current_level \<lparr>total_xp = 1250, unlocked_badge_ids = {}, current_streak_days = 7,
             longest_streak_days = 12, last_activity_date = 0\<rparr> = currentLevel userData \<and>
   currentLevel userData = 2"
  using C6_level_from_total_xp
    [of "\<lparr>total_xp = 1250, unlocked_badge_ids = {}, current_streak_days = 7,
          longest_streak_days = 12, last_activity_date = 0\<rparr>"]
  by (simp add: levels_def userData_def)

text \<open>
  C3. A completion with raw score 100, on the first attempt, with a streak of 7 days
  before the event, on a simulation with base XP 100, awards
  \<open>round(100 * (1 + 0.20 + 0.50 + 0.25)) = 195\<close> XP. The bonuses add up as fractions of the
  base: compounding them would give 225.
\<close>

theorem C3_xp_award_additive:
  "xp_award 100 100 True 7 = 195 \<and>
   xp_award 100 100 True 7 = round_half_up (100 * (1 + 0.20 + 0.50 + 0.25)) \<and>
   round_half_up (100 * (1 + 0.20) * (1 + 0.50) * (1 + 0.25)) = 225"
  by (simp add: xp_award_def first_attempt_bonus_def perfect_score_bonus_def streak_bonus_def
      round_half_up_def)

end
